theory Spec2Isabelle
  imports Main "HOL-Library.Sublist" "HOL-Library.Word"
begin

section \<open>Python values used by \<open>main.py\<close>\<close>

text \<open>
  A Python \<open>str\<close> is a sequence of Unicode code points, and \<open>len\<close>, \<open>find\<close> and slicing
  count code points. A code point is a natural number here and a \<open>str\<close> a list of them;
  \<open>lit\<close> embeds an ASCII literal of the source.
\<close>

type_synonym codepoint = nat
type_synonym str = "codepoint list"

definition lit :: "string \<Rightarrow> str" where
  "lit cs = map of_char cs"

subsection \<open>Slicing\<close>

text \<open>
  \<open>xs[i:]\<close>: a negative \<open>i\<close> counts from the end and is clamped at the start of the
  list, a non-negative \<open>i\<close> beyond the end gives the empty list. No slice raises.
\<close>

definition slice_from :: "'a list \<Rightarrow> int \<Rightarrow> 'a list" where
  "slice_from xs i =
     (if i < 0 then drop (nat (max 0 (int (length xs) + i))) xs else drop (nat i) xs)"

subsection \<open>String methods\<close>

text \<open>
  \<open>str.isspace\<close> on one code point, which is what \<open>str.strip()\<close> without argument
  removes: the ASCII controls 9-13 and 28-31, the space, NEL, NBSP and the Unicode
  space separators.
\<close>

definition isspace :: "codepoint \<Rightarrow> bool" where
  "isspace c \<longleftrightarrow>
     (9 \<le> c \<and> c \<le> 13) \<or> (28 \<le> c \<and> c \<le> 32) \<or> c = 133 \<or> c = 160 \<or> c = 5760 \<or>
     (8192 \<le> c \<and> c \<le> 8202) \<or> c = 8232 \<or> c = 8233 \<or> c = 8239 \<or> c = 8287 \<or> c = 12288"

definition lstrip :: "str \<Rightarrow> str" where
  "lstrip s = dropWhile isspace s"

definition rstrip :: "str \<Rightarrow> str" where
  "rstrip s = rev (dropWhile isspace (rev s))"

definition strip :: "str \<Rightarrow> str" where
  "strip s = rstrip (lstrip s)"

text \<open>\<open>s.rstrip(chars)\<close>: drops the trailing code points that occur in \<open>chars\<close>.\<close>

definition rstrip_chars :: "str \<Rightarrow> str \<Rightarrow> str" where
  "rstrip_chars s chars = rev (dropWhile (\<lambda>c. c \<in> set chars) (rev s))"

definition startswith :: "str \<Rightarrow> str \<Rightarrow> bool" where
  "startswith s p \<longleftrightarrow> take (length p) s = p"

text \<open>
  The lowest index at which \<open>pat\<close> occurs in \<open>s\<close>. \<open>s.find(pat)\<close> is that index or
  \<open>-1\<close>, and \<open>pat in s\<close> says whether there is one.
\<close>

fun find_index :: "str \<Rightarrow> str \<Rightarrow> nat option" where
  "find_index [] pat = (if pat = [] then Some 0 else None)"
| "find_index (c # cs) pat =
     (if startswith (c # cs) pat then Some 0 else map_option Suc (find_index cs pat))"

definition find :: "str \<Rightarrow> str \<Rightarrow> int" where
  "find s pat = (case find_index s pat of None \<Rightarrow> - 1 | Some i \<Rightarrow> int i)"

definition contains :: "str \<Rightarrow> str \<Rightarrow> bool" where
  "contains s pat \<longleftrightarrow> find_index s pat \<noteq> None"

text \<open>
  \<open>s.split(sep, 1)\<close> for a non-empty \<open>sep\<close>: the text before and after the first
  occurrence of \<open>sep\<close>, or \<open>s\<close> alone when there is none. The result is never empty
  (lemma \<open>split1_nonempty\<close>), so the index \<open>[-1]\<close> that the source applies to it does
  not raise and is its last element.
\<close>

definition split1 :: "str \<Rightarrow> str \<Rightarrow> str list" where
  "split1 s sep =
     (case find_index s sep of
        None \<Rightarrow> [s]
      | Some i \<Rightarrow> [take i s, drop (i + length sep) s])"

subsection \<open>Exceptions and decoded JSON\<close>

datatype exn =
    TypeError | KeyError | IndexError | AttributeError | UnicodeEncodeError | ServiceError str

definition and_then :: "exn + 'a \<Rightarrow> ('a \<Rightarrow> exn + 'b) \<Rightarrow> exn + 'b" where
  "and_then r k = (case r of Inl e \<Rightarrow> Inl e | Inr v \<Rightarrow> k v)"

text \<open>
  What \<open>Response.json()\<close> can return. Floating-point numbers are not modelled: their
  type is the parameter \<open>'f\<close>, and the two things the source does with one (a truth
  test and formatting) come from the environment.
\<close>

datatype 'f pyval =
    PNone
  | PBool bool
  | PInt int
  | PFloat 'f
  | PStr str
  | PList "'f pyval list"
  | PDict "(str \<times> 'f pyval) list"

fun truthy :: "('f \<Rightarrow> bool) \<Rightarrow> 'f pyval \<Rightarrow> bool" where
  "truthy nz PNone = False"
| "truthy nz (PBool b) = b"
| "truthy nz (PInt i) = (i \<noteq> 0)"
| "truthy nz (PFloat x) = nz x"
| "truthy nz (PStr s) = (s \<noteq> [])"
| "truthy nz (PList vs) = (vs \<noteq> [])"
| "truthy nz (PDict kvs) = (kvs \<noteq> [])"

text \<open>\<open>k in v\<close> for a string \<open>k\<close>: a key of a dict, an element of a list, a substring of a
  string; any other \<open>v\<close> is not iterable.\<close>

fun py_in :: "str \<Rightarrow> 'f pyval \<Rightarrow> exn + bool" where
  "py_in k (PDict kvs) = Inr (map_of kvs k \<noteq> None)"
| "py_in k (PList vs) = Inr (PStr k \<in> set vs)"
| "py_in k (PStr s) = Inr (contains s k)"
| "py_in k v = Inl TypeError"

text \<open>\<open>v[k]\<close> for a string \<open>k\<close>: only a dict can be indexed by a string.\<close>

fun getitem :: "'f pyval \<Rightarrow> str \<Rightarrow> exn + 'f pyval" where
  "getitem (PDict kvs) k = (case map_of kvs k of None \<Rightarrow> Inl KeyError | Some v \<Rightarrow> Inr v)"
| "getitem v k = Inl TypeError"

text \<open>\<open>v[0]\<close>: the keys of a decoded JSON object are strings, so a dict has no key \<open>0\<close>.\<close>

fun getitem0 :: "'f pyval \<Rightarrow> exn + 'f pyval" where
  "getitem0 (PList vs) = (case vs of [] \<Rightarrow> Inl IndexError | v # _ \<Rightarrow> Inr v)"
| "getitem0 (PStr s) = (case s of [] \<Rightarrow> Inl IndexError | c # _ \<Rightarrow> Inr (PStr [c]))"
| "getitem0 (PDict kvs) = Inl KeyError"
| "getitem0 v = Inl TypeError"

text \<open>\<open>v.get(k)\<close>: only a dict has the method.\<close>

fun py_get :: "'f pyval \<Rightarrow> str \<Rightarrow> exn + 'f pyval" where
  "py_get (PDict kvs) k = Inr (case map_of kvs k of None \<Rightarrow> PNone | Some v \<Rightarrow> v)"
| "py_get v k = Inl AttributeError"

section \<open>Data model\<close>

text \<open>
  \<open>Message\<close> is the pydantic class of the source; the records kept in \<open>user_memory\<close> and
  sent to the language model are dicts with the same two keys and are modelled by the
  same record.
\<close>

record Message =
  role :: str
  content :: str

record ChatRequest =
  user_id :: str
  message :: str
  history :: "Message list"

type_synonym byte = "8 word"

record UploadFile =
  filename :: "str option"
  content_type :: "str option"
  file_bytes :: "byte list"

text \<open>A chat completion, as far as the source reads it: the \<open>message.content\<close> of each
  choice, which the API may leave \<open>None\<close>.\<close>

record completion =
  choices :: "str option list"

text \<open>A JSON object with string values, as the endpoints return it.\<close>

type_synonym json_object = "(str \<times> str) list"

text \<open>
  \<open>JSONResponse(content)\<close> renders its body when it is built: \<open>json.dumps\<close> with
  \<open>ensure_ascii=False\<close>, then \<open>.encode("utf-8")\<close>. A Python \<open>str\<close> may hold a lone
  surrogate (U+D800 to U+DFFF), which UTF-8 cannot encode: the constructor then raises
  \<open>UnicodeEncodeError\<close>. For an object of strings that is its only failure.
\<close>

definition surrogate :: "codepoint \<Rightarrow> bool" where
  "surrogate c \<longleftrightarrow> 55296 \<le> c \<and> c \<le> 57343"

definition JSONResponse :: "json_object \<Rightarrow> exn + json_object" where
  "JSONResponse obj =
     (if list_ex (\<lambda>(k, v). list_ex surrogate k \<or> list_ex surrogate v) obj
      then Inl UnicodeEncodeError else Inr obj)"

subsection \<open>The environment\<close>

text \<open>
  What the program takes from outside the repository, for the duration of one request:
  \<^item> \<open>str_lower\<close> is Python's \<open>str.lower\<close>, whose Unicode case-mapping table belongs to
    the interpreter;
  \<^item> \<open>float_truth\<close> and \<open>format_value\<close> are \<open>bool(x)\<close> of a float and the text an
    f-string gives a decoded JSON value;
  \<^item> \<open>requests_get_json\<close> is \<open>requests.get(url, timeout=10).json()\<close>;
  \<^item> \<open>chat_completions_create\<close> is \<open>client.chat.completions.create\<close> with the fixed
    model and temperature, as a function of the message list;
  \<^item> \<open>transcriptions_create\<close> is \<open>client.audio.transcriptions.create\<close> with the fixed
    model, giving the \<open>text\<close> of its result.
  Each of the three services either raises or returns.
\<close>

record 'f env =
  str_lower :: "str \<Rightarrow> str"
  float_truth :: "'f \<Rightarrow> bool"
  format_value :: "'f pyval \<Rightarrow> str"
  requests_get_json :: "str \<Rightarrow> exn + 'f pyval"
  chat_completions_create :: "Message list \<Rightarrow> exn + completion"
  transcriptions_create :: "str option \<times> byte list \<times> str option \<Rightarrow> exn + str"

subsection \<open>The state\<close>

text \<open>
  \<open>user_memory\<close> is the module-level dict. \<open>outbound\<close> is not a variable of the program:
  it records, in order, the calls the program has made to the weather lookup, the
  language model and the transcription service, so that what is sent to them can be
  stated.
\<close>

datatype call =
    WeatherLookup str
  | ChatCompletion "Message list"
  | Transcription "str option" "byte list" "str option"

record state =
  user_memory :: "str \<rightharpoonup> Message list"
  outbound :: "call list"

text \<open>\<open>user_memory.setdefault(user_id, [])\<close>\<close>

definition setdefault :: "str \<Rightarrow> state \<Rightarrow> state" where
  "setdefault uid s =
     (case user_memory s uid of
        None \<Rightarrow> s\<lparr>user_memory := (user_memory s)(uid \<mapsto> [])\<rparr>
      | Some _ \<Rightarrow> s)"

text \<open>
  \<open>user_memory[user_id].append(m)\<close>. On a missing key Python raises \<open>KeyError\<close>; every
  call in the source follows a \<open>setdefault\<close> on the same key, so the branch is never
  taken (lemma \<open>append_after_setdefault\<close>), and it leaves the state as it is.
\<close>

definition append_record :: "str \<Rightarrow> Message \<Rightarrow> state \<Rightarrow> state" where
  "append_record uid m s =
     (case user_memory s uid of
        None \<Rightarrow> s
      | Some ms \<Rightarrow> s\<lparr>user_memory := (user_memory s)(uid \<mapsto> ms @ [m])\<rparr>)"

definition record_call :: "call \<Rightarrow> state \<Rightarrow> state" where
  "record_call c s = s\<lparr>outbound := outbound s @ [c]\<rparr>"

text \<open>\<open>user_memory.get(user_id, [])\<close>\<close>

definition memory_get :: "state \<Rightarrow> str \<Rightarrow> Message list" where
  "memory_get s uid = (case user_memory s uid of None \<Rightarrow> [] | Some ms \<Rightarrow> ms)"

section \<open>The weather tool\<close>

definition geocode_url :: "str \<Rightarrow> str" where
  "geocode_url city =
     lit ''https://geocoding-api.open-meteo.com/v1/search?name='' @ city @ lit ''&count=1''"

definition weather_url :: "'f env \<Rightarrow> 'f pyval \<Rightarrow> 'f pyval \<Rightarrow> str" where
  "weather_url E lat lon =
     lit ''https://api.open-meteo.com/v1/forecast?latitude='' @ format_value E lat @
     lit ''&longitude='' @ format_value E lon @ lit ''&current_weather=true''"

text \<open>The body of the \<open>try\<close> block: \<open>Inl\<close> is an exception raised inside it.\<close>

definition weather_report :: "'f env \<Rightarrow> str \<Rightarrow> exn + str" where
  "weather_report E city =
     and_then (requests_get_json E (geocode_url city)) (\<lambda>geo.
     and_then (py_in (lit ''results'') geo) (\<lambda>has_results.
     and_then (if \<not> has_results then Inr True
               else and_then (getitem geo (lit ''results''))
                      (\<lambda>r. Inr (\<not> truthy (float_truth E) r))) (\<lambda>no_results.
     if no_results
     then Inr (lit ''I couldn't find weather information for '' @ [39] @ city @ [39] @ lit ''.'')
     else
     and_then (getitem geo (lit ''results'')) (\<lambda>r1.
     and_then (getitem0 r1) (\<lambda>first1.
     and_then (getitem first1 (lit ''latitude'')) (\<lambda>lat.
     and_then (getitem geo (lit ''results'')) (\<lambda>r2.
     and_then (getitem0 r2) (\<lambda>first2.
     and_then (getitem first2 (lit ''longitude'')) (\<lambda>lon.
     and_then (requests_get_json E (weather_url E lat lon)) (\<lambda>weather.
     and_then (py_in (lit ''current_weather'') weather) (\<lambda>has_cw.
     if \<not> has_cw then Inr (lit ''Weather information is not available right now.'')
     else
     and_then (getitem weather (lit ''current_weather'')) (\<lambda>cw.
     and_then (py_get cw (lit ''temperature'')) (\<lambda>temp.
     and_then (py_get cw (lit ''windspeed'')) (\<lambda>wind.
     Inr (lit ''The current temperature in '' @ city @ lit '' is '' @ format_value E temp @
          [176] @ lit ''C with wind speeds of '' @ format_value E wind @
          lit '' km/h.'')))))))))))))))"

text \<open>\<open>except Exception\<close> turns every exception of the body into the fixed apology; the
  \<open>print\<close> of the handler writes to the log only and is left out, here and in \<open>chat\<close>.\<close>

definition get_weather_for_city :: "'f env \<Rightarrow> str \<Rightarrow> str" where
  "get_weather_for_city E city =
     (case weather_report E city of
        Inl e \<Rightarrow> lit ''Sorry, I couldn't retrieve the weather right now.''
      | Inr text \<Rightarrow> text)"

section \<open>The tool hook\<close>

text \<open>
  The city of a weather request (lines 94-95), from the lowercased and the original
  message: \<open>idx\<close> is computed in the lowercased message and applied to the original.
\<close>

definition parse_city :: "str \<Rightarrow> str \<Rightarrow> str" where
  "parse_city lower msg =
     (let idx = find lower (lit ''weather in '') + int (length (lit ''weather in ''));
          rest = rstrip_chars (strip (slice_from msg idx)) (lit ''? .,!'')
      in if rest = [] then lit ''Bentonville'' else rest)"

text \<open>The content of a note (line 100).\<close>

definition note_content :: "str \<Rightarrow> str" where
  "note_content msg =
     (if contains msg (lit '':'') then strip (last (split1 msg (lit '':'')))
      else strip (slice_from msg 5))"

text \<open>
  The result is the reply (\<open>None\<close> when no tool applies) and the state after the call.
\<close>

definition maybe_handle_tools :: "'f env \<Rightarrow> str \<Rightarrow> str \<Rightarrow> state \<Rightarrow> str option \<times> state" where
  "maybe_handle_tools E uid msg s =
     (let lower = str_lower E msg in
      if contains lower (lit ''weather in '') then
        (let city = parse_city lower msg
         in (Some (get_weather_for_city E city), record_call (WeatherLookup city) s))
      else if startswith lower (lit ''note:'') \<or> startswith lower (lit ''note '') then
        (let content' = note_content msg
         in if content' = []
            then (Some (lit ''Your note is empty. Try 'Note: buy hay for the horses.'' @ [39]), s)
            else (Some (lit ''Got it, I saved a note: '' @ content'),
                  append_record uid \<lparr>role = lit ''system'', content = lit ''[NOTE] '' @ content'\<rparr>
                    (setdefault uid s)))
      else (None, s))"

section \<open>The chat endpoint\<close>

definition system_prompt :: str where
  "system_prompt =
     lit ''You are Nova, a friendly, concise personal AI assistant. '' @
     lit ''You remember context from the conversation. '' @
     lit ''If the user asks about weather, notes, or reminders, you can reference what I've already done, '' @
     lit ''but avoid making up actions I didn't perform.''"

text \<open>Step 2 of the handler: the message list built for the language model.\<close>

definition build_messages :: "state \<Rightarrow> ChatRequest \<Rightarrow> str \<Rightarrow> Message list" where
  "build_messages s req user_message =
     (let history' = memory_get s (user_id req);
          incoming_history = map (\<lambda>m. \<lparr>role = role m, content = content m\<rparr>) (history req)
      in [\<lparr>role = lit ''system'', content = system_prompt\<rparr>] @
         slice_from history' (- 10) @
         slice_from incoming_history (- 10) @
         [\<lparr>role = lit ''user'', content = user_message\<rparr>])"

text \<open>
  The body of the \<open>try\<close> block of step 3: the call, then
  \<open>completion.choices[0].message.content.strip()\<close>, which raises on an empty list of
  choices and on a content that is \<open>None\<close>.
\<close>

definition completion_reply :: "'f env \<Rightarrow> Message list \<Rightarrow> exn + str" where
  "completion_reply E messages =
     and_then (chat_completions_create E messages) (\<lambda>c.
       case choices c of
         [] \<Rightarrow> Inl IndexError
       | None # _ \<Rightarrow> Inl AttributeError
       | Some text # _ \<Rightarrow> Inr (strip text))"

text \<open>Step 3 with its \<open>except Exception\<close>: every exception becomes the fixed apology.\<close>

definition fallback_reply :: "'f env \<Rightarrow> Message list \<Rightarrow> str" where
  "fallback_reply E messages =
     (case completion_reply E messages of
        Inl e \<Rightarrow> lit ''Sorry, I had an issue talking to my brain (OpenAI). Try again in a moment.''
      | Inr text \<Rightarrow> text)"

text \<open>
  The handler. Both \<open>return JSONResponse(...)\<close> come after the memory update, so an
  exception of the constructor leaves the updated memory behind.
\<close>

definition chat :: "'f env \<Rightarrow> ChatRequest \<Rightarrow> state \<Rightarrow> (exn + json_object) \<times> state" where
  "chat E req s =
     (let uid = user_id req;
          user_message = strip (message req);
          (tool_reply, s1) = maybe_handle_tools E uid user_message s
      in case tool_reply of
           Some reply \<Rightarrow>
             (JSONResponse [(lit ''reply'', reply)],
              append_record uid \<lparr>role = lit ''assistant'', content = reply\<rparr>
                (append_record uid \<lparr>role = lit ''user'', content = user_message\<rparr>
                  (setdefault uid s1)))
         | None \<Rightarrow>
             (let messages = build_messages s1 req user_message;
                  reply = fallback_reply E messages;
                  s2 = record_call (ChatCompletion messages) s1
              in (JSONResponse [(lit ''reply'', reply)],
                  append_record uid \<lparr>role = lit ''assistant'', content = reply\<rparr>
                    (append_record uid \<lparr>role = lit ''user'', content = user_message\<rparr>
                      (setdefault uid s2)))))"

section \<open>The transcription and health endpoints\<close>

text \<open>
  The handler has no \<open>try\<close>: an exception of the service leaves it as it came. It
  returns a plain dict, which the framework serialises after the handler has returned.
\<close>

definition transcribe_audio :: "'f env \<Rightarrow> UploadFile \<Rightarrow> state \<Rightarrow> (exn + json_object) \<times> state" where
  "transcribe_audio E file s =
     (let audio_bytes = file_bytes file;
          s1 = record_call (Transcription (filename file) audio_bytes (content_type file)) s
      in case transcriptions_create E (filename file, audio_bytes, content_type file) of
           Inl e \<Rightarrow> (Inl e, s1)
         | Inr text \<Rightarrow> (Inr [(lit ''text'', text)], s1))"

definition root :: "state \<Rightarrow> json_object \<times> state" where
  "root s = ([(lit ''message'', lit ''Nova backend is running!'')], s)"

section \<open>Sequences of requests\<close>

datatype request = Chat ChatRequest | Transcribe UploadFile | Root

fun handle :: "'f env \<Rightarrow> request \<Rightarrow> state \<Rightarrow> state" where
  "handle E (Chat req) s = snd (chat E req s)"
| "handle E (Transcribe file) s = snd (transcribe_audio E file s)"
| "handle E Root s = snd (root s)"

text \<open>Each request is served in its own environment: the services may answer
  differently every time.\<close>

fun run :: "('f env \<times> request) list \<Rightarrow> state \<Rightarrow> state" where
  "run [] s = s"
| "run ((E, r) # rs) s = run rs (handle E r s)"

section \<open>The text after the pattern, as the specification words it\<close>

text \<open>
  This definition follows the words of the specification, not the source: the
  original-case text after the first occurrence of the pattern, where the pattern occurs
  at a place of the message when the next \<open>length pat\<close> code points there, lowercased, are
  the pattern. \<open>None\<close> when it occurs nowhere. It is compared with \<open>parse_city\<close> below.
\<close>

fun spec_text_after :: "(str \<Rightarrow> str) \<Rightarrow> str \<Rightarrow> str \<Rightarrow> str option" where
  "spec_text_after lower pat [] = (if lower [] = pat then Some [] else None)"
| "spec_text_after lower pat (c # cs) =
     (if lower (take (length pat) (c # cs)) = pat then Some (drop (length pat) (c # cs))
      else spec_text_after lower pat cs)"

section \<open>Sample inputs\<close>

text \<open>
  The theorems below hold in every environment. Where one is evaluated at a concrete
  request, the environment is \<open>sample_env\<close>: its \<open>str_lower\<close> is \<open>str.lower\<close> on strings
  of ASCII code points, U+0130 (LATIN CAPITAL LETTER I WITH DOT ABOVE, whose lowercase
  is the two code points U+0069 U+0307) and U+D800 (a surrogate, which has no case),
  which all sample messages are; its geocoder
  answers with an empty object, its language model with one choice, its transcription
  service with a fixed text. In \<open>failing_env\<close> the language model raises.
\<close>

definition sample_lower :: "str \<Rightarrow> str" where
  "sample_lower s =
     concat (map (\<lambda>c. if 65 \<le> c \<and> c \<le> 90 then [c + 32]
                       else if c = 304 then [105, 775] else [c]) s)"

definition sample_env :: "unit env" where
  "sample_env =
     \<lparr>str_lower = sample_lower,
      float_truth = (\<lambda>x. True),
      format_value = (\<lambda>v. lit ''None''),
      requests_get_json = (\<lambda>url. Inr (PDict [])),
      chat_completions_create = (\<lambda>ms. Inr \<lparr>choices = [Some (lit '' Hello! '')]\<rparr>),
      transcriptions_create = (\<lambda>f. Inr (lit ''buy hay''))\<rparr>"

definition failing_env :: "unit env" where
  "failing_env = sample_env\<lparr>chat_completions_create := (\<lambda>ms. Inl (ServiceError (lit ''timeout'')))\<rparr>"

definition sample_state :: state where
  "sample_state =
     \<lparr>user_memory = [lit ''ann'' \<mapsto> [\<lparr>role = lit ''user'', content = lit ''hi''\<rparr>]],
      outbound = []\<rparr>"

definition numbered :: "nat \<Rightarrow> Message" where
  "numbered n = \<lparr>role = lit ''user'', content = [48 + n]\<rparr>"

definition long_state :: state where
  "long_state =
     \<lparr>user_memory = [lit ''ann'' \<mapsto> map numbered [1, 2, 3, 4, 5, 6, 7, 8, 9, 10, 11, 12]],
      outbound = []\<rparr>"

definition long_request :: ChatRequest where
  "long_request =
     \<lparr>user_id = lit ''ann'', message = lit '' hello '',
      history = map numbered [21, 22, 23, 24, 25, 26, 27, 28, 29, 30, 31]\<rparr>"

definition surrogate_note_request :: ChatRequest where
  "surrogate_note_request =
     \<lparr>user_id = lit ''ann'', message = lit ''note: '' @ [55296], history = []\<rparr>"

definition hello_request :: ChatRequest where
  "hello_request = \<lparr>user_id = lit ''ann'', message = lit '' hello '', history = []\<rparr>"

definition bob_request :: ChatRequest where
  "bob_request = \<lparr>user_id = lit ''bob'', message = lit ''note: call ann'', history = []\<rparr>"

definition sample_file :: UploadFile where
  "sample_file =
     \<lparr>filename = Some (lit ''memo.wav''), content_type = Some (lit ''audio/wav''),
      file_bytes = [82, 73, 70, 70]\<rparr>"

definition empty_note_request :: ChatRequest where
  "empty_note_request = \<lparr>user_id = lit ''ann'', message = lit '' NOTE: '', history = []\<rparr>"

definition note_weather_request :: ChatRequest where
  "note_weather_request =
     \<lparr>user_id = lit ''ann'', message = lit ''note: weather in Paris'', history = []\<rparr>"

definition dotted_request :: ChatRequest where
  "dotted_request =
     \<lparr>user_id = lit ''ann'', message = 304 # lit '' weather in Paris'', history = []\<rparr>"

definition weather_request :: ChatRequest where
  "weather_request =
     \<lparr>user_id = lit ''ann'', message = lit ''What is the Weather in Paris?'', history = []\<rparr>"

definition note_request :: ChatRequest where
  "note_request = \<lparr>user_id = lit ''ann'', message = lit ''Note: buy hay '', history = []\<rparr>"

section \<open>Properties of the memory operations\<close>

lemma split1_nonempty: "split1 s sep \<noteq> []"
  by (simp add: split1_def split: option.splits)

lemma setdefault_present: "user_memory (setdefault uid s) uid = Some (memory_get s uid)"
  by (simp add: setdefault_def memory_get_def split: option.splits)

lemma setdefault_other: "v \<noteq> uid \<Longrightarrow> user_memory (setdefault uid s) v = user_memory s v"
  by (simp add: setdefault_def split: option.splits)

lemma setdefault_outbound: "outbound (setdefault uid s) = outbound s"
  by (simp add: setdefault_def split: option.splits)

lemma append_record_present:
  "user_memory s uid = Some ms \<Longrightarrow> user_memory (append_record uid m s) uid = Some (ms @ [m])"
  by (simp add: append_record_def)

lemma append_record_other: "v \<noteq> uid \<Longrightarrow> user_memory (append_record uid m s) v = user_memory s v"
  by (simp add: append_record_def split: option.splits)

lemma append_record_outbound: "outbound (append_record uid m s) = outbound s"
  by (simp add: append_record_def split: option.splits)

lemma append_after_setdefault:
  "user_memory (append_record uid m (setdefault uid s)) uid = Some (memory_get s uid @ [m])"
  by (simp add: append_record_present setdefault_present)

lemma record_call_memory: "user_memory (record_call c s) = user_memory s"
  by (simp add: record_call_def)

lemma record_call_outbound: "outbound (record_call c s) = outbound s @ [c]"
  by (simp add: record_call_def)

lemma memory_get_record_call: "memory_get (record_call c s) uid = memory_get s uid"
  by (simp add: memory_get_def record_call_memory)

lemma memory_get_Some: "user_memory s uid = Some ms \<Longrightarrow> memory_get s uid = ms"
  by (simp add: memory_get_def)

lemma tools_None_iff:
  "fst (maybe_handle_tools E uid msg s) = None \<longleftrightarrow>
     \<not> contains (str_lower E msg) (lit ''weather in '') \<and>
     \<not> startswith (str_lower E msg) (lit ''note:'') \<and>
     \<not> startswith (str_lower E msg) (lit ''note '')"
  by (simp add: maybe_handle_tools_def Let_def)

lemma tools_None_state:
  "fst (maybe_handle_tools E uid msg s) = None \<Longrightarrow> snd (maybe_handle_tools E uid msg s) = s"
  by (simp add: maybe_handle_tools_def Let_def split: if_splits)

lemma tools_outbound:
  "\<exists>calls. outbound (snd (maybe_handle_tools E uid msg s)) = outbound s @ calls \<and>
     (\<forall>ms. ChatCompletion ms \<notin> set calls)"
  by (simp add: maybe_handle_tools_def Let_def record_call_outbound append_record_outbound
      setdefault_outbound)

lemma tools_memory_other:
  "v \<noteq> uid \<Longrightarrow> user_memory (snd (maybe_handle_tools E uid msg s)) v = user_memory s v"
  by (simp add: maybe_handle_tools_def Let_def record_call_memory append_record_other
      setdefault_other)

lemma tools_memory_grows:
  "\<exists>ms. memory_get (snd (maybe_handle_tools E uid msg s)) uid = memory_get s uid @ ms"
  by (simp add: maybe_handle_tools_def Let_def memory_get_record_call
      memory_get_Some [OF append_after_setdefault])

section \<open>Slices from the end\<close>

lemma slice_from_neg: "0 < n \<Longrightarrow> slice_from xs (- int n) = drop (length xs - n) xs"
  by (auto simp: slice_from_def nat_diff_distrib' max_def)

lemma window_suffix: "suffix (slice_from xs (- 10)) xs"
  using slice_from_neg [of 10 xs] by (simp add: suffix_drop)

lemma window_length: "length (slice_from xs (- 10)) = min 10 (length xs)"
  using slice_from_neg [of 10 xs] by simp

lemma window_short: "length xs \<le> 10 \<Longrightarrow> slice_from xs (- 10) = xs"
  using slice_from_neg [of 10 xs] by simp

section \<open>The two paths of the chat endpoint\<close>

lemma chat_tool:
  assumes "fst (maybe_handle_tools E (user_id req) (strip (message req)) s) = Some reply"
  shows "chat E req s =
     (JSONResponse [(lit ''reply'', reply)],
      append_record (user_id req) \<lparr>role = lit ''assistant'', content = reply\<rparr>
        (append_record (user_id req) \<lparr>role = lit ''user'', content = strip (message req)\<rparr>
          (setdefault (user_id req)
            (snd (maybe_handle_tools E (user_id req) (strip (message req)) s)))))"
  using assms by (simp add: chat_def Let_def split_def)

lemma chat_fallback:
  assumes "fst (maybe_handle_tools E (user_id req) (strip (message req)) s) = None"
  shows "chat E req s =
     (JSONResponse [(lit ''reply'', fallback_reply E (build_messages s req (strip (message req))))],
      append_record (user_id req)
        \<lparr>role = lit ''assistant'',
         content = fallback_reply E (build_messages s req (strip (message req)))\<rparr>
        (append_record (user_id req) \<lparr>role = lit ''user'', content = strip (message req)\<rparr>
          (setdefault (user_id req)
            (record_call (ChatCompletion (build_messages s req (strip (message req)))) s))))"
  using assms tools_None_state [OF assms]
  by (simp add: chat_def Let_def split_def)

lemma two_appends_memory:
  "user_memory (append_record uid b (append_record uid a (setdefault uid s))) uid =
     Some (memory_get s uid @ [a, b])"
  by (simp add: append_record_present [OF append_after_setdefault])

lemma two_appends_other:
  "v \<noteq> uid \<Longrightarrow>
   user_memory (append_record uid b (append_record uid a (setdefault uid s))) v = user_memory s v"
  by (simp add: append_record_other setdefault_other)

lemma two_appends_outbound:
  "outbound (append_record uid b (append_record uid a (setdefault uid s))) = outbound s"
  by (simp add: append_record_outbound setdefault_outbound)

lemma chat_memory_other:
  "v \<noteq> user_id req \<Longrightarrow> user_memory (snd (chat E req s)) v = user_memory s v"
proof (cases "fst (maybe_handle_tools E (user_id req) (strip (message req)) s)")
  case None
  assume "v \<noteq> user_id req"
  then show ?thesis
    by (simp add: chat_fallback [OF None] two_appends_other record_call_memory)
next
  case (Some reply)
  assume "v \<noteq> user_id req"
  then show ?thesis
    by (simp add: chat_tool [OF Some] two_appends_other tools_memory_other)
qed

text \<open>
  C6. A chat request of one user leaves the memory entry of every other user identifier
  as it was, on the tool paths and on the fallback path.
\<close>

theorem chat_frame:
  "v \<noteq> user_id req \<Longrightarrow> user_memory (snd (chat E req s)) v = user_memory s v"
  by (rule chat_memory_other)

theorem chat_frame_witness:
  "lit ''ann'' \<noteq> user_id bob_request \<and>
   user_memory (snd (chat sample_env bob_request sample_state)) (lit ''ann'') =
     Some [\<lparr>role = lit ''user'', content = lit ''hi''\<rparr>]"
  using chat_frame [of "lit ''ann''" bob_request sample_env sample_state]
  by (simp add: bob_request_def sample_state_def lit_def)

section \<open>The fallback path\<close>

lemma lit_below_256: "c \<in> set (lit cs) \<Longrightarrow> c < 256"
proof -
  have "(of_char x :: nat) < 256" for x
  proof -
    have "(of_char x :: nat) mod 256 = of_char x" by simp
    then show ?thesis by (metis mod_less_divisor zero_less_numeral)
  qed
  then show "c \<in> set (lit cs) \<Longrightarrow> c < 256" by (auto simp: lit_def)
qed

lemma lit_no_surrogate: "\<not> list_ex surrogate (lit cs)"
  using lit_below_256 [of _ cs] by (fastforce simp: list_ex_iff surrogate_def)

lemma JSONResponse_reply:
  "JSONResponse [(lit ''reply'', reply)] =
     (if list_ex surrogate reply then Inl UnicodeEncodeError else Inr [(lit ''reply'', reply)])"
  by (simp add: JSONResponse_def lit_no_surrogate)

lemma no_tool_None:
  assumes "\<not> contains (str_lower E msg) (lit ''weather in '')"
    and "\<not> startswith (str_lower E msg) (lit ''note:'')"
    and "\<not> startswith (str_lower E msg) (lit ''note '')"
  shows "fst (maybe_handle_tools E uid msg s) = None"
  using assms by (simp add: tools_None_iff)

lemma incoming_history_id:
  "map (\<lambda>m. \<lparr>role = role m, content = content m\<rparr>) (ms :: Message list) = ms"
  by (induction ms) simp_all

lemma build_messages_shape:
  "build_messages s req um =
     \<lparr>role = lit ''system'', content = system_prompt\<rparr> #
     slice_from (memory_get s (user_id req)) (- 10) @ slice_from (history req) (- 10) @
     [\<lparr>role = lit ''user'', content = um\<rparr>]"
  by (simp add: build_messages_def Let_def incoming_history_id)

lemma fallback_reply_eq:
  "fallback_reply E ms =
     (case chat_completions_create E ms of
        Inl e \<Rightarrow> lit ''Sorry, I had an issue talking to my brain (OpenAI). Try again in a moment.''
      | Inr c \<Rightarrow>
          (case choices c of
             [] \<Rightarrow> lit ''Sorry, I had an issue talking to my brain (OpenAI). Try again in a moment.''
           | None # _ \<Rightarrow> lit ''Sorry, I had an issue talking to my brain (OpenAI). Try again in a moment.''
           | Some text # _ \<Rightarrow> strip text))"
  by (simp add: fallback_reply_def completion_reply_def and_then_def
      split: sum.splits list.splits option.splits)

lemma weather_env_indep:
  "get_weather_for_city (E\<lparr>chat_completions_create := f\<rparr>) city = get_weather_for_city E city"
  by (simp add: get_weather_for_city_def weather_report_def weather_url_def cong: if_cong)

lemma tools_env_indep:
  "maybe_handle_tools (E\<lparr>chat_completions_create := f\<rparr>) uid msg s =
     maybe_handle_tools E uid msg s"
  by (simp add: maybe_handle_tools_def Let_def weather_env_indep cong: if_cong)

lemma fallback_reply_env:
  "f ms = chat_completions_create E ms \<Longrightarrow>
   fallback_reply (E\<lparr>chat_completions_create := f\<rparr>) ms = fallback_reply E ms"
  by (simp add: fallback_reply_def completion_reply_def)

lemma chat_fallback_indep:
  assumes "fst (maybe_handle_tools E (user_id req) (strip (message req)) s) = None"
    and "f (build_messages s req (strip (message req))) =
         chat_completions_create E (build_messages s req (strip (message req)))"
  shows "chat (E\<lparr>chat_completions_create := f\<rparr>) req s = chat E req s"
proof -
  have "fst (maybe_handle_tools (E\<lparr>chat_completions_create := f\<rparr>) (user_id req)
      (strip (message req)) s) = None"
    using assms(1) by (simp add: tools_env_indep)
  from chat_fallback [OF this] chat_fallback [OF assms(1)]
    fallback_reply_env [of f "build_messages s req (strip (message req))" E, OF assms(2)]
  show ?thesis by simp
qed

lemma chat_tool_indep:
  assumes "fst (maybe_handle_tools E (user_id req) (strip (message req)) s) = Some reply"
  shows "chat (E\<lparr>chat_completions_create := f\<rparr>) req s = chat E req s"
proof -
  have "fst (maybe_handle_tools (E\<lparr>chat_completions_create := f\<rparr>) (user_id req)
      (strip (message req)) s) = Some reply"
    using assms by (simp add: tools_env_indep)
  from chat_tool [OF this] chat_tool [OF assms] show ?thesis
    by (simp add: tools_env_indep)
qed

lemma fallback_sends:
  assumes "fst (maybe_handle_tools E (user_id req) (strip (message req)) s) = None"
  shows "outbound (snd (chat E req s)) =
      outbound s @ [ChatCompletion (build_messages s req (strip (message req)))]"
    and "fst (chat E req s) =
      JSONResponse [(lit ''reply'', fallback_reply E (build_messages s req (strip (message req))))]"
  by (simp_all add: chat_fallback [OF assms] two_appends_outbound record_call_outbound)

lemma suffix_is_drop: "suffix xs ys \<Longrightarrow> xs = drop (length ys - length xs) ys"
  by (auto simp: suffix_def)

lemma hello_stripped: "strip (message hello_request) = lit ''hello''"
  by (simp add: hello_request_def strip_def lstrip_def rstrip_def isspace_def lit_def)

lemma hello_lower: "str_lower sample_env (lit ''hello'') = lit ''hello''"
  by (simp add: sample_env_def sample_lower_def lit_def)

lemma hello_no_tool:
  "\<not> contains (lit ''hello'') (lit ''weather in '')"
  "\<not> startswith (lit ''hello'') (lit ''note:'')"
  "\<not> startswith (lit ''hello'') (lit ''note '')"
  by (simp_all add: contains_def startswith_def lit_def)

lemma hello_hyps:
  "\<not> contains (str_lower sample_env (strip (message hello_request))) (lit ''weather in '')"
  "\<not> startswith (str_lower sample_env (strip (message hello_request))) (lit ''note:'')"
  "\<not> startswith (str_lower sample_env (strip (message hello_request))) (lit ''note '')"
  by (simp_all add: hello_stripped hello_lower hello_no_tool)

lemma failing_env_lower: "str_lower failing_env = str_lower sample_env"
  by (simp add: failing_env_def)

lemma ann_memory:
  "memory_get sample_state (lit ''ann'') = [\<lparr>role = lit ''user'', content = lit ''hi''\<rparr>]"
  by (simp add: memory_get_def sample_state_def)

lemma hello_user: "user_id hello_request = lit ''ann''"
  by (simp add: hello_request_def)

lemma hello_history: "history hello_request = []"
  by (simp add: hello_request_def)

lemma sample_outbound: "outbound sample_state = []"
  by (simp add: sample_state_def)

lemma long_hyps:
  "\<not> contains (str_lower sample_env (strip (message long_request))) (lit ''weather in '')"
  "\<not> startswith (str_lower sample_env (strip (message long_request))) (lit ''note:'')"
  "\<not> startswith (str_lower sample_env (strip (message long_request))) (lit ''note '')"
  using hello_hyps by (simp_all add: long_request_def hello_request_def)

lemma long_stripped: "strip (message long_request) = lit ''hello''"
  using hello_stripped by (simp add: long_request_def hello_request_def)

lemma long_user: "user_id long_request = lit ''ann''"
  by (simp add: long_request_def)

lemma long_history:
  "history long_request = map numbered [21, 22, 23, 24, 25, 26, 27, 28, 29, 30, 31]"
  by (simp add: long_request_def)

lemma long_memory:
  "memory_get long_state (lit ''ann'') = map numbered [1, 2, 3, 4, 5, 6, 7, 8, 9, 10, 11, 12]"
  by (simp add: memory_get_def long_state_def)

lemma long_outbound: "outbound long_state = []"
  by (simp add: long_state_def)

lemma sample_answer:
  "(case chat_completions_create sample_env ms of
      Inl e \<Rightarrow> lit ''Sorry, I had an issue talking to my brain (OpenAI). Try again in a moment.''
    | Inr c \<Rightarrow>
        (case choices c of
           [] \<Rightarrow> lit ''Sorry, I had an issue talking to my brain (OpenAI). Try again in a moment.''
         | None # _ \<Rightarrow> lit ''Sorry, I had an issue talking to my brain (OpenAI). Try again in a moment.''
         | Some text # _ \<Rightarrow> strip text)) = lit ''Hello!''"
  by (simp add: sample_env_def strip_def lstrip_def rstrip_def isspace_def lit_def)

text \<open>
  C2. On the fallback path (no tool pattern matches the stripped message) the language
  model is called with the list made of the system prompt, then the last \<open>min 10 n\<close>
  records of the caller's stored memory, then the last \<open>min 10 n\<close> records of the
  request's history, then the stripped user message: at most 22 messages. That list is
  the one call logged, the reply is what the model answers at that list, and the
  endpoint does not depend on what the model would answer at any other list.
\<close>

theorem fallback_message_list:
  assumes "\<not> contains (str_lower E (strip (message req))) (lit ''weather in '')"
    and "\<not> startswith (str_lower E (strip (message req))) (lit ''note:'')"
    and "\<not> startswith (str_lower E (strip (message req))) (lit ''note '')"
  shows "\<exists>recent incoming msgs.
     msgs = \<lparr>role = lit ''system'', content = system_prompt\<rparr> # recent @ incoming @
            [\<lparr>role = lit ''user'', content = strip (message req)\<rparr>] \<and>
     suffix recent (memory_get s (user_id req)) \<and>
     length recent = min 10 (length (memory_get s (user_id req))) \<and>
     suffix incoming (history req) \<and>
     length incoming = min 10 (length (history req)) \<and>
     length msgs \<le> 22 \<and>
     outbound (snd (chat E req s)) = outbound s @ [ChatCompletion msgs] \<and>
     fst (chat E req s) =
       JSONResponse
         [(lit ''reply'',
           (case chat_completions_create E msgs of
             Inl e \<Rightarrow> lit ''Sorry, I had an issue talking to my brain (OpenAI). Try again in a moment.''
           | Inr c \<Rightarrow>
               (case choices c of
                  [] \<Rightarrow> lit ''Sorry, I had an issue talking to my brain (OpenAI). Try again in a moment.''
                | None # _ \<Rightarrow> lit ''Sorry, I had an issue talking to my brain (OpenAI). Try again in a moment.''
                | Some text # _ \<Rightarrow> strip text)))] \<and>
     (\<forall>f. f msgs = chat_completions_create E msgs \<longrightarrow>
          chat (E\<lparr>chat_completions_create := f\<rparr>) req s = chat E req s)"
proof -
  let ?recent = "slice_from (memory_get s (user_id req)) (- 10)"
  let ?incoming = "slice_from (history req) (- 10)"
  let ?msgs = "build_messages s req (strip (message req))"
  have none: "fst (maybe_handle_tools E (user_id req) (strip (message req)) s) = None"
    using assms by (rule no_tool_None)
  have shape: "?msgs = \<lparr>role = lit ''system'', content = system_prompt\<rparr> # ?recent @ ?incoming @
      [\<lparr>role = lit ''user'', content = strip (message req)\<rparr>]"
    by (rule build_messages_shape)
  have len: "length ?msgs \<le> 22"
    by (simp add: shape window_length)
  have reply: "fst (chat E req s) =
       JSONResponse
         [(lit ''reply'',
           (case chat_completions_create E ?msgs of
             Inl e \<Rightarrow> lit ''Sorry, I had an issue talking to my brain (OpenAI). Try again in a moment.''
           | Inr c \<Rightarrow>
               (case choices c of
                  [] \<Rightarrow> lit ''Sorry, I had an issue talking to my brain (OpenAI). Try again in a moment.''
                | None # _ \<Rightarrow> lit ''Sorry, I had an issue talking to my brain (OpenAI). Try again in a moment.''
                | Some text # _ \<Rightarrow> strip text)))]"
    by (simp only: fallback_sends(2) [OF none] fallback_reply_eq)
  have indep: "\<forall>f. f ?msgs = chat_completions_create E ?msgs \<longrightarrow>
      chat (E\<lparr>chat_completions_create := f\<rparr>) req s = chat E req s"
    using chat_fallback_indep [OF none] by blast
  show ?thesis
    using shape window_suffix [of "memory_get s (user_id req)"]
      window_length [of "memory_get s (user_id req)"]
      window_suffix [of "history req"] window_length [of "history req"]
      len fallback_sends(1) [OF none] reply indep
    by blast
qed

theorem fallback_message_list_witness:
  "\<not> contains (str_lower sample_env (strip (message long_request))) (lit ''weather in '') \<and>
   \<not> startswith (str_lower sample_env (strip (message long_request))) (lit ''note:'') \<and>
   \<not> startswith (str_lower sample_env (strip (message long_request))) (lit ''note '') \<and>
   outbound (snd (chat sample_env long_request long_state)) =
     [ChatCompletion
        (\<lparr>role = lit ''system'', content = system_prompt\<rparr> #
         map numbered [3, 4, 5, 6, 7, 8, 9, 10, 11, 12] @
         map numbered [22, 23, 24, 25, 26, 27, 28, 29, 30, 31] @
         [\<lparr>role = lit ''user'', content = lit ''hello''\<rparr>])] \<and>
   fst (chat sample_env long_request long_state) = Inr [(lit ''reply'', lit ''Hello!'')]"
proof -
  from fallback_message_list [OF long_hyps, of long_state]
  obtain recent incoming msgs where
    msgs: "msgs = \<lparr>role = lit ''system'', content = system_prompt\<rparr> # recent @ incoming @
            [\<lparr>role = lit ''user'', content = strip (message long_request)\<rparr>]"
    and r: "suffix recent (memory_get long_state (user_id long_request))"
      "length recent = min 10 (length (memory_get long_state (user_id long_request)))"
    and i: "suffix incoming (history long_request)"
      "length incoming = min 10 (length (history long_request))"
    and out: "outbound (snd (chat sample_env long_request long_state)) =
        outbound long_state @ [ChatCompletion msgs]"
    and rep: "fst (chat sample_env long_request long_state) =
       JSONResponse
         [(lit ''reply'',
           (case chat_completions_create sample_env msgs of
             Inl e \<Rightarrow> lit ''Sorry, I had an issue talking to my brain (OpenAI). Try again in a moment.''
           | Inr c \<Rightarrow>
               (case choices c of
                  [] \<Rightarrow> lit ''Sorry, I had an issue talking to my brain (OpenAI). Try again in a moment.''
                | None # _ \<Rightarrow> lit ''Sorry, I had an issue talking to my brain (OpenAI). Try again in a moment.''
                | Some text # _ \<Rightarrow> strip text)))]"
    by blast
  have recent: "recent = map numbered [3, 4, 5, 6, 7, 8, 9, 10, 11, 12]"
    using suffix_is_drop [OF r(1)] r(2) by (simp add: long_user long_memory)
  have incoming: "incoming = map numbered [22, 23, 24, 25, 26, 27, 28, 29, 30, 31]"
    using suffix_is_drop [OF i(1)] i(2) by (simp add: long_history)
  have "fst (chat sample_env long_request long_state) = Inr [(lit ''reply'', lit ''Hello!'')]"
    by (simp only: rep sample_answer JSONResponse_reply lit_no_surrogate if_False)
  with long_hyps out show ?thesis
    by (simp add: msgs recent incoming long_stripped long_outbound)
qed

text \<open>
  C4. The part of the message list that comes from the caller's memory: the list that
  \<open>build_messages\<close> builds and \<open>chat\<close> sends to the language model holds, right after the
  system prompt, a suffix of the stored list (contiguous, in the stored order) of length
  \<open>min 10 (length of the list)\<close>; a stored list of at most 10 records is sent whole.
\<close>

theorem memory_window:
  assumes "\<not> contains (str_lower E (strip (message req))) (lit ''weather in '')"
    and "\<not> startswith (str_lower E (strip (message req))) (lit ''note:'')"
    and "\<not> startswith (str_lower E (strip (message req))) (lit ''note '')"
  shows "\<exists>window incoming msgs.
     msgs = \<lparr>role = lit ''system'', content = system_prompt\<rparr> # window @ incoming @
            [\<lparr>role = lit ''user'', content = strip (message req)\<rparr>] \<and>
     suffix window (memory_get s (user_id req)) \<and>
     length window = min 10 (length (memory_get s (user_id req))) \<and>
     (length (memory_get s (user_id req)) \<le> 10 \<longrightarrow> window = memory_get s (user_id req)) \<and>
     suffix incoming (history req) \<and>
     length incoming = min 10 (length (history req)) \<and>
     build_messages s req (strip (message req)) = msgs \<and>
     outbound (snd (chat E req s)) = outbound s @ [ChatCompletion msgs] \<and>
     fst (chat E req s) =
       JSONResponse
         [(lit ''reply'',
           (case chat_completions_create E msgs of
             Inl e \<Rightarrow> lit ''Sorry, I had an issue talking to my brain (OpenAI). Try again in a moment.''
           | Inr c \<Rightarrow>
               (case choices c of
                  [] \<Rightarrow> lit ''Sorry, I had an issue talking to my brain (OpenAI). Try again in a moment.''
                | None # _ \<Rightarrow> lit ''Sorry, I had an issue talking to my brain (OpenAI). Try again in a moment.''
                | Some text # _ \<Rightarrow> strip text)))]"
proof -
  let ?window = "slice_from (memory_get s (user_id req)) (- 10)"
  let ?incoming = "slice_from (history req) (- 10)"
  let ?msgs = "build_messages s req (strip (message req))"
  have none: "fst (maybe_handle_tools E (user_id req) (strip (message req)) s) = None"
    using assms by (rule no_tool_None)
  have shape: "?msgs = \<lparr>role = lit ''system'', content = system_prompt\<rparr> # ?window @ ?incoming @
      [\<lparr>role = lit ''user'', content = strip (message req)\<rparr>]"
    by (rule build_messages_shape)
  have whole: "length (memory_get s (user_id req)) \<le> 10 \<longrightarrow> ?window = memory_get s (user_id req)"
    by (simp add: window_short)
  have reply: "fst (chat E req s) =
       JSONResponse
         [(lit ''reply'',
           (case chat_completions_create E ?msgs of
             Inl e \<Rightarrow> lit ''Sorry, I had an issue talking to my brain (OpenAI). Try again in a moment.''
           | Inr c \<Rightarrow>
               (case choices c of
                  [] \<Rightarrow> lit ''Sorry, I had an issue talking to my brain (OpenAI). Try again in a moment.''
                | None # _ \<Rightarrow> lit ''Sorry, I had an issue talking to my brain (OpenAI). Try again in a moment.''
                | Some text # _ \<Rightarrow> strip text)))]"
    by (simp only: fallback_sends(2) [OF none] fallback_reply_eq)
  show ?thesis
    using shape window_suffix [of "memory_get s (user_id req)"]
      window_length [of "memory_get s (user_id req)"] whole
      window_suffix [of "history req"] window_length [of "history req"]
      fallback_sends(1) [OF none] reply
    by blast
qed

theorem memory_window_witness:
  "\<not> contains (str_lower sample_env (strip (message hello_request))) (lit ''weather in '') \<and>
   \<not> startswith (str_lower sample_env (strip (message hello_request))) (lit ''note:'') \<and>
   \<not> startswith (str_lower sample_env (strip (message hello_request))) (lit ''note '') \<and>
   length (memory_get long_state (lit ''ann'')) = 12 \<and>
   outbound (snd (chat sample_env hello_request long_state)) =
     [ChatCompletion
        (\<lparr>role = lit ''system'', content = system_prompt\<rparr> #
         map numbered [3, 4, 5, 6, 7, 8, 9, 10, 11, 12] @
         [\<lparr>role = lit ''user'', content = lit ''hello''\<rparr>])] \<and>
   length (memory_get sample_state (lit ''ann'')) \<le> 10 \<and>
   outbound (snd (chat sample_env hello_request sample_state)) =
     [ChatCompletion
        (\<lparr>role = lit ''system'', content = system_prompt\<rparr> #
         memory_get sample_state (lit ''ann'') @
         [\<lparr>role = lit ''user'', content = lit ''hello''\<rparr>])]"
proof -
  from memory_window [OF hello_hyps, of long_state]
  obtain window incoming msgs where
    msgs: "msgs = \<lparr>role = lit ''system'', content = system_prompt\<rparr> # window @ incoming @
            [\<lparr>role = lit ''user'', content = strip (message hello_request)\<rparr>]"
    and w: "suffix window (memory_get long_state (user_id hello_request))"
      "length window = min 10 (length (memory_get long_state (user_id hello_request)))"
    and i: "suffix incoming (history hello_request)"
    and out: "outbound (snd (chat sample_env hello_request long_state)) =
        outbound long_state @ [ChatCompletion msgs]"
    by blast
  have window: "window = map numbered [3, 4, 5, 6, 7, 8, 9, 10, 11, 12]"
    using suffix_is_drop [OF w(1)] w(2) by (simp add: hello_user long_memory)
  have incoming: "incoming = []"
    using i by (simp add: hello_history)
  have long: "outbound (snd (chat sample_env hello_request long_state)) =
     [ChatCompletion
        (\<lparr>role = lit ''system'', content = system_prompt\<rparr> #
         map numbered [3, 4, 5, 6, 7, 8, 9, 10, 11, 12] @
         [\<lparr>role = lit ''user'', content = lit ''hello''\<rparr>])]"
    using out by (simp add: msgs window incoming hello_stripped long_outbound)
  from memory_window [OF hello_hyps, of sample_state]
  obtain window' incoming' msgs' where
    msgs': "msgs' = \<lparr>role = lit ''system'', content = system_prompt\<rparr> # window' @ incoming' @
            [\<lparr>role = lit ''user'', content = strip (message hello_request)\<rparr>]"
    and w': "length (memory_get sample_state (user_id hello_request)) \<le> 10 \<longrightarrow>
        window' = memory_get sample_state (user_id hello_request)"
    and i': "suffix incoming' (history hello_request)"
    and out': "outbound (snd (chat sample_env hello_request sample_state)) =
        outbound sample_state @ [ChatCompletion msgs']"
    by blast
  have short: "length (memory_get sample_state (lit ''ann'')) \<le> 10"
    by (simp add: ann_memory)
  have window': "window' = memory_get sample_state (lit ''ann'')"
    using w' short by (simp add: hello_user)
  have incoming': "incoming' = []"
    using i' by (simp add: hello_history)
  have "outbound (snd (chat sample_env hello_request sample_state)) =
     [ChatCompletion
        (\<lparr>role = lit ''system'', content = system_prompt\<rparr> #
         memory_get sample_state (lit ''ann'') @
         [\<lparr>role = lit ''user'', content = lit ''hello''\<rparr>])]"
    using out' by (simp add: msgs' window' incoming' hello_stripped sample_outbound)
  with hello_hyps long short show ?thesis
    by (simp add: long_memory)
qed

text \<open>
  C3. On the fallback path the caller's memory afterwards is the old list (empty for a
  new user) followed by the stripped user message with role \<open>user\<close> and the reply with
  role \<open>assistant\<close>; that reply is the one the response is built from, and the one
  returned when it holds no lone surrogate.
\<close>

theorem fallback_memory:
  assumes "\<not> contains (str_lower E (strip (message req))) (lit ''weather in '')"
    and "\<not> startswith (str_lower E (strip (message req))) (lit ''note:'')"
    and "\<not> startswith (str_lower E (strip (message req))) (lit ''note '')"
  shows "\<exists>reply.
     fst (chat E req s) = JSONResponse [(lit ''reply'', reply)] \<and>
     (\<not> list_ex surrogate reply \<longrightarrow> fst (chat E req s) = Inr [(lit ''reply'', reply)]) \<and>
     user_memory (snd (chat E req s)) (user_id req) =
       Some (memory_get s (user_id req) @
             [\<lparr>role = lit ''user'', content = strip (message req)\<rparr>,
              \<lparr>role = lit ''assistant'', content = reply\<rparr>])"
proof -
  have none: "fst (maybe_handle_tools E (user_id req) (strip (message req)) s) = None"
    using assms by (rule no_tool_None)
  show ?thesis
    by (simp add: chat_fallback [OF none] two_appends_memory memory_get_record_call
        JSONResponse_reply)
qed

theorem fallback_memory_witness:
  "\<not> contains (str_lower sample_env (strip (message hello_request))) (lit ''weather in '') \<and>
   \<not> startswith (str_lower sample_env (strip (message hello_request))) (lit ''note:'') \<and>
   \<not> startswith (str_lower sample_env (strip (message hello_request))) (lit ''note '') \<and>
   (\<exists>reply.
     fst (chat sample_env hello_request sample_state) = JSONResponse [(lit ''reply'', reply)] \<and>
     user_memory (snd (chat sample_env hello_request sample_state)) (lit ''ann'') =
       Some [\<lparr>role = lit ''user'', content = lit ''hi''\<rparr>,
             \<lparr>role = lit ''user'', content = lit ''hello''\<rparr>,
             \<lparr>role = lit ''assistant'', content = reply\<rparr>])"
  using hello_hyps fallback_memory [OF hello_hyps, of sample_state]
  by (auto simp add: hello_stripped ann_memory hello_user)

text \<open>
  C8. When the call to the language model raises, the endpoint returns the fixed apology
  as its reply and appends it to the caller's memory as the assistant record, after the
  user record.
\<close>

theorem fallback_llm_raises:
  assumes "\<not> contains (str_lower E (strip (message req))) (lit ''weather in '')"
    and "\<not> startswith (str_lower E (strip (message req))) (lit ''note:'')"
    and "\<not> startswith (str_lower E (strip (message req))) (lit ''note '')"
    and "chat_completions_create E (build_messages s req (strip (message req))) = Inl e"
  shows "fst (chat E req s) =
       Inr [(lit ''reply'',
         lit ''Sorry, I had an issue talking to my brain (OpenAI). Try again in a moment.'')] \<and>
     user_memory (snd (chat E req s)) (user_id req) =
       Some (memory_get s (user_id req) @
             [\<lparr>role = lit ''user'', content = strip (message req)\<rparr>,
              \<lparr>role = lit ''assistant'',
               content = lit ''Sorry, I had an issue talking to my brain (OpenAI). Try again in a moment.''\<rparr>])"
proof -
  have none: "fst (maybe_handle_tools E (user_id req) (strip (message req)) s) = None"
    using assms(1-3) by (rule no_tool_None)
  have reply: "fallback_reply E (build_messages s req (strip (message req))) =
      lit ''Sorry, I had an issue talking to my brain (OpenAI). Try again in a moment.''"
    using assms(4) by (simp add: fallback_reply_def completion_reply_def and_then_def)
  show ?thesis
    by (simp add: chat_fallback [OF none] two_appends_memory memory_get_record_call reply
        JSONResponse_reply lit_no_surrogate)
qed

theorem fallback_llm_raises_witness:
  "\<not> contains (str_lower failing_env (strip (message hello_request))) (lit ''weather in '') \<and>
   \<not> startswith (str_lower failing_env (strip (message hello_request))) (lit ''note:'') \<and>
   \<not> startswith (str_lower failing_env (strip (message hello_request))) (lit ''note '') \<and>
   chat_completions_create failing_env
     (build_messages sample_state hello_request (strip (message hello_request))) =
     Inl (ServiceError (lit ''timeout'')) \<and>
   fst (chat failing_env hello_request sample_state) =
     Inr [(lit ''reply'',
       lit ''Sorry, I had an issue talking to my brain (OpenAI). Try again in a moment.'')] \<and>
   user_memory (snd (chat failing_env hello_request sample_state)) (lit ''ann'') =
     Some [\<lparr>role = lit ''user'', content = lit ''hi''\<rparr>,
           \<lparr>role = lit ''user'', content = lit ''hello''\<rparr>,
           \<lparr>role = lit ''assistant'',
            content = lit ''Sorry, I had an issue talking to my brain (OpenAI). Try again in a moment.''\<rparr>]"
proof -
  have h: "\<not> contains (str_lower failing_env (strip (message hello_request))) (lit ''weather in '')"
    "\<not> startswith (str_lower failing_env (strip (message hello_request))) (lit ''note:'')"
    "\<not> startswith (str_lower failing_env (strip (message hello_request))) (lit ''note '')"
    using hello_hyps by (simp_all add: failing_env_lower)
  have r: "chat_completions_create failing_env
      (build_messages sample_state hello_request (strip (message hello_request))) =
      Inl (ServiceError (lit ''timeout''))"
    by (simp add: failing_env_def)
  show ?thesis
    using h r fallback_llm_raises [OF h r]
    by (simp add: hello_stripped ann_memory hello_user)
qed

section \<open>The weather tool at the sample request\<close>

lemma weather_stripped:
  "strip (message weather_request) = lit ''What is the Weather in Paris?''"
  by (simp add: weather_request_def strip_def lstrip_def rstrip_def isspace_def lit_def)

lemma weather_lower:
  "str_lower sample_env (lit ''What is the Weather in Paris?'') = lit ''what is the weather in paris?''"
  by (simp add: sample_env_def sample_lower_def lit_def)

lemma weather_matches:
  "contains (lit ''what is the weather in paris?'') (lit ''weather in '')"
  by (simp add: contains_def startswith_def lit_def)

lemma weather_city: "parse_city (lit ''what is the weather in paris?'') (lit ''What is the Weather in Paris?'') = lit ''Paris''"
  by (simp add: parse_city_def Let_def find_def startswith_def slice_from_def strip_def lstrip_def rstrip_def rstrip_chars_def isspace_def lit_def)

lemma sample_weather_reply:
  "get_weather_for_city sample_env city =
     lit ''I couldn't find weather information for '' @ [39] @ city @ [39] @ lit ''.''"
  by (simp add: get_weather_for_city_def weather_report_def and_then_def sample_env_def)

lemma weather_hyp:
  "contains (str_lower sample_env (strip (message weather_request))) (lit ''weather in '') \<or>
   startswith (str_lower sample_env (strip (message weather_request))) (lit ''note:'') \<or>
   startswith (str_lower sample_env (strip (message weather_request))) (lit ''note '')"
  by (simp add: weather_stripped weather_lower weather_matches)

section \<open>The note tool at the sample requests\<close>

lemma tools_note:
  assumes "\<not> contains (str_lower E msg) (lit ''weather in '')"
    and "startswith (str_lower E msg) (lit ''note:'') \<or> startswith (str_lower E msg) (lit ''note '')"
  shows "maybe_handle_tools E uid msg s =
     (if note_content msg = []
      then (Some (lit ''Your note is empty. Try 'Note: buy hay for the horses.'' @ [39]), s)
      else (Some (lit ''Got it, I saved a note: '' @ note_content msg),
            append_record uid \<lparr>role = lit ''system'', content = lit ''[NOTE] '' @ note_content msg\<rparr>
              (setdefault uid s)))"
  using assms by (simp add: maybe_handle_tools_def Let_def)

lemmas str_eval = lit_def strip_def lstrip_def rstrip_def rstrip_chars_def isspace_def
  startswith_def contains_def find_def slice_from_def split1_def

lemma note_stripped: "strip (message note_request) = lit ''Note: buy hay''"
  by (simp add: note_request_def str_eval)

lemma note_lower: "str_lower sample_env (lit ''Note: buy hay'') = lit ''note: buy hay''"
  by (simp add: sample_env_def sample_lower_def lit_def)

lemma note_parsed: "note_content (lit ''Note: buy hay'') = lit ''buy hay''"
  by (simp add: note_content_def str_eval)

lemma note_hyps:
  "startswith (str_lower sample_env (strip (message note_request))) (lit ''note:'') \<or>
   startswith (str_lower sample_env (strip (message note_request))) (lit ''note '')"
  "\<not> contains (str_lower sample_env (strip (message note_request))) (lit ''weather in '')"
  by (simp_all add: note_stripped note_lower) (simp_all add: str_eval)

lemma empty_note_stripped: "strip (message empty_note_request) = lit ''NOTE:''"
  by (simp add: empty_note_request_def str_eval)

lemma empty_note_lower: "str_lower sample_env (lit ''NOTE:'') = lit ''note:''"
  by (simp add: sample_env_def sample_lower_def lit_def)

lemma empty_note_parsed: "note_content (lit ''NOTE:'') = []"
  by (simp add: note_content_def str_eval)

lemma empty_note_hyps:
  "startswith (str_lower sample_env (strip (message empty_note_request))) (lit ''note:'') \<or>
   startswith (str_lower sample_env (strip (message empty_note_request))) (lit ''note '')"
  "\<not> contains (str_lower sample_env (strip (message empty_note_request))) (lit ''weather in '')"
  by (simp_all add: empty_note_stripped empty_note_lower) (simp_all add: str_eval)

lemma note_user: "user_id note_request = lit ''ann''" "user_id empty_note_request = lit ''ann''"
  by (simp_all add: note_request_def empty_note_request_def)

lemma note_weather_stripped:
  "strip (message note_weather_request) = lit ''note: weather in Paris''"
  by (simp add: note_weather_request_def str_eval)

lemma note_weather_lower:
  "str_lower sample_env (lit ''note: weather in Paris'') = lit ''note: weather in paris''"
  by (simp add: sample_env_def sample_lower_def lit_def)

lemma note_weather_parsed: "note_content (lit ''note: weather in Paris'') = lit ''weather in Paris''"
  by (simp add: note_content_def str_eval)

lemma note_weather_contains: "contains (lit ''note: weather in paris'') (lit ''weather in '')"
  by (simp add: str_eval)

lemma note_weather_city:
  "parse_city (lit ''note: weather in paris'') (lit ''note: weather in Paris'') = lit ''Paris''"
  by (simp add: parse_city_def Let_def str_eval)

lemma note_weather_tools:
  "maybe_handle_tools sample_env uid (lit ''note: weather in Paris'') s =
     (Some (lit ''I couldn't find weather information for 'Paris'.''),
      record_call (WeatherLookup (lit ''Paris'')) s)"
  by (simp add: maybe_handle_tools_def Let_def note_weather_lower note_weather_contains
      note_weather_city sample_weather_reply) (simp add: lit_def)

section \<open>Tool requests do not reach the language model\<close>

lemma weather_tools:
  "maybe_handle_tools sample_env uid (lit ''What is the Weather in Paris?'') s =
     (Some (lit ''I couldn't find weather information for 'Paris'.''),
      record_call (WeatherLookup (lit ''Paris'')) s)"
  by (simp add: maybe_handle_tools_def Let_def weather_lower weather_matches weather_city
      sample_weather_reply) (simp add: lit_def)

lemma surrogate_note_stripped:
  "strip (message surrogate_note_request) = lit ''note: '' @ [55296]"
  by (simp add: surrogate_note_request_def str_eval)

lemma surrogate_note_lower:
  "str_lower sample_env (lit ''note: '' @ [55296]) = lit ''note: '' @ [55296]"
  by (simp add: sample_env_def sample_lower_def lit_def)

lemma surrogate_note_facts:
  "startswith (lit ''note: '' @ [55296]) (lit ''note:'')"
  "\<not> contains (lit ''note: '' @ [55296]) (lit ''weather in '')"
  "note_content (lit ''note: '' @ [55296]) = [55296]"
  by (simp_all add: note_content_def str_eval)

text \<open>
  C1, as the code has it. When the stripped message matches a tool pattern (its lowercase
  contains \<open>weather in \<close>, or starts with \<open>note:\<close> or \<open>note \<close>), the tool hook returns a
  reply; the endpoint returns that reply whenever it holds no lone surrogate; none of
  the calls the request makes is a call to the language model, and the outcome is the
  same whatever the language model would answer.
\<close>

theorem tool_short_circuit:
  assumes "contains (str_lower E (strip (message req))) (lit ''weather in '') \<or>
           startswith (str_lower E (strip (message req))) (lit ''note:'') \<or>
           startswith (str_lower E (strip (message req))) (lit ''note '')"
  shows "\<exists>reply calls.
     fst (maybe_handle_tools E (user_id req) (strip (message req)) s) = Some reply \<and>
     (\<not> list_ex surrogate reply \<longrightarrow> fst (chat E req s) = Inr [(lit ''reply'', reply)]) \<and>
     outbound (snd (chat E req s)) = outbound s @ calls \<and>
     (\<forall>ms. ChatCompletion ms \<notin> set calls) \<and>
     (\<forall>f. chat (E\<lparr>chat_completions_create := f\<rparr>) req s = chat E req s)"
proof -
  have "fst (maybe_handle_tools E (user_id req) (strip (message req)) s) \<noteq> None"
    using assms by (simp add: tools_None_iff)
  then obtain reply
    where some: "fst (maybe_handle_tools E (user_id req) (strip (message req)) s) = Some reply"
    by blast
  obtain calls
    where calls: "outbound (snd (maybe_handle_tools E (user_id req) (strip (message req)) s)) =
        outbound s @ calls" "\<forall>ms. ChatCompletion ms \<notin> set calls"
    using tools_outbound by blast
  have out: "outbound (snd (chat E req s)) = outbound s @ calls"
    by (simp add: chat_tool [OF some] two_appends_outbound calls(1))
  have ret: "\<not> list_ex surrogate reply \<longrightarrow> fst (chat E req s) = Inr [(lit ''reply'', reply)]"
    by (simp add: chat_tool [OF some] JSONResponse_reply)
  have indep: "\<forall>f. chat (E\<lparr>chat_completions_create := f\<rparr>) req s = chat E req s"
    using chat_tool_indep [OF some] by blast
  from some ret out calls(2) indep show ?thesis by blast
qed

theorem tool_short_circuit_witness:
  "(contains (str_lower sample_env (strip (message weather_request))) (lit ''weather in '') \<or>
    startswith (str_lower sample_env (strip (message weather_request))) (lit ''note:'') \<or>
    startswith (str_lower sample_env (strip (message weather_request))) (lit ''note '')) \<and>
   \<not> list_ex surrogate (lit ''I couldn't find weather information for 'Paris'.'') \<and>
   fst (chat sample_env weather_request sample_state) =
     Inr [(lit ''reply'', lit ''I couldn't find weather information for 'Paris'.'')] \<and>
   (\<forall>f. chat (sample_env\<lparr>chat_completions_create := f\<rparr>) weather_request sample_state =
        chat sample_env weather_request sample_state)"
proof -
  from tool_short_circuit [OF weather_hyp, of sample_state]
  obtain reply where
    some: "fst (maybe_handle_tools sample_env (user_id weather_request)
        (strip (message weather_request)) sample_state) = Some reply"
    and ret: "\<not> list_ex surrogate reply \<longrightarrow>
        fst (chat sample_env weather_request sample_state) = Inr [(lit ''reply'', reply)]"
    and indep: "\<forall>f. chat (sample_env\<lparr>chat_completions_create := f\<rparr>) weather_request sample_state =
        chat sample_env weather_request sample_state"
    by blast
  have "reply = lit ''I couldn't find weather information for 'Paris'.''"
    using some by (simp add: weather_stripped weather_tools)
  with ret indep weather_hyp show ?thesis
    by (simp add: lit_no_surrogate)
qed

text \<open>
  C1 as stated fails on the message \<open>note: \<close> followed by U+D800: it starts with \<open>note:\<close>,
  the tool reply quotes the note, and building the response raises instead of returning
  the reply.
\<close>

theorem tool_reply_counterexample:
  "startswith (str_lower sample_env (strip (message surrogate_note_request))) (lit ''note:'') \<and>
   fst (maybe_handle_tools sample_env (user_id surrogate_note_request)
          (strip (message surrogate_note_request)) sample_state) =
     Some (lit ''Got it, I saved a note: '' @ [55296]) \<and>
   fst (chat sample_env surrogate_note_request sample_state) = Inl UnicodeEncodeError"
proof -
  have t: "fst (maybe_handle_tools sample_env (user_id surrogate_note_request)
      (strip (message surrogate_note_request)) sample_state) =
      Some (lit ''Got it, I saved a note: '' @ [55296])"
    by (simp add: surrogate_note_stripped tools_note surrogate_note_lower surrogate_note_facts)
  have "fst (chat sample_env surrogate_note_request sample_state) = Inl UnicodeEncodeError"
    by (simp add: chat_tool [OF t] JSONResponse_reply surrogate_def)
  with t show ?thesis
    by (simp add: surrogate_note_stripped surrogate_note_lower surrogate_note_facts)
qed

section \<open>Note commands\<close>

text \<open>
  C9, as the code has it. The weather rule is tried first, so the claim holds for the
  note commands whose lowercase does not contain \<open>weather in \<close>: with an empty content the
  reply is the fixed message and memory grows by the user and assistant records only;
  otherwise memory grows by the system record \<open>[NOTE] content\<close>, the user record and the
  confirmation, in that order, and the response is built from the confirmation.
\<close>

theorem note_command:
  assumes "startswith (str_lower E (strip (message req))) (lit ''note:'') \<or>
           startswith (str_lower E (strip (message req))) (lit ''note '')"
    and "\<not> contains (str_lower E (strip (message req))) (lit ''weather in '')"
  shows "(note_content (strip (message req)) = [] \<longrightarrow>
            fst (chat E req s) =
              Inr [(lit ''reply'', lit ''Your note is empty. Try 'Note: buy hay for the horses.'' @ [39])] \<and>
            user_memory (snd (chat E req s)) (user_id req) =
              Some (memory_get s (user_id req) @
                    [\<lparr>role = lit ''user'', content = strip (message req)\<rparr>,
                     \<lparr>role = lit ''assistant'',
                      content = lit ''Your note is empty. Try 'Note: buy hay for the horses.'' @ [39]\<rparr>])) \<and>
         (note_content (strip (message req)) \<noteq> [] \<longrightarrow>
            fst (chat E req s) =
              JSONResponse
                [(lit ''reply'', lit ''Got it, I saved a note: '' @ note_content (strip (message req)))] \<and>
            user_memory (snd (chat E req s)) (user_id req) =
              Some (memory_get s (user_id req) @
                    [\<lparr>role = lit ''system'',
                      content = lit ''[NOTE] '' @ note_content (strip (message req))\<rparr>,
                     \<lparr>role = lit ''user'', content = strip (message req)\<rparr>,
                     \<lparr>role = lit ''assistant'',
                      content = lit ''Got it, I saved a note: '' @ note_content (strip (message req))\<rparr>]))"
proof (cases "note_content (strip (message req)) = []")
  case True
  have t: "maybe_handle_tools E (user_id req) (strip (message req)) s =
      (Some (lit ''Your note is empty. Try 'Note: buy hay for the horses.'' @ [39]), s)"
    using True by (simp add: tools_note [OF assms(2) assms(1)])
  have f: "fst (maybe_handle_tools E (user_id req) (strip (message req)) s) =
      Some (lit ''Your note is empty. Try 'Note: buy hay for the horses.'' @ [39])"
    by (simp add: t)
  show ?thesis
    using True
    by (simp add: chat_tool [OF f] two_appends_memory JSONResponse_reply lit_no_surrogate
        surrogate_def) (simp add: t)
next
  case False
  let ?note = "\<lparr>role = lit ''system'',
      content = lit ''[NOTE] '' @ note_content (strip (message req))\<rparr>"
  have t: "maybe_handle_tools E (user_id req) (strip (message req)) s =
      (Some (lit ''Got it, I saved a note: '' @ note_content (strip (message req))),
       append_record (user_id req) ?note (setdefault (user_id req) s))"
    using False by (simp add: tools_note [OF assms(2) assms(1)])
  have f: "fst (maybe_handle_tools E (user_id req) (strip (message req)) s) =
      Some (lit ''Got it, I saved a note: '' @ note_content (strip (message req)))"
    by (simp add: t)
  have m: "memory_get (append_record (user_id req) ?note (setdefault (user_id req) s))
      (user_id req) = memory_get s (user_id req) @ [?note]"
    by (rule memory_get_Some [OF append_after_setdefault])
  show ?thesis
    using False by (simp add: chat_tool [OF f] two_appends_memory) (simp add: t m)
qed

theorem note_command_witness:
  "(startswith (str_lower sample_env (strip (message note_request))) (lit ''note:'') \<or>
    startswith (str_lower sample_env (strip (message note_request))) (lit ''note '')) \<and>
   \<not> contains (str_lower sample_env (strip (message note_request))) (lit ''weather in '') \<and>
   note_content (strip (message note_request)) \<noteq> [] \<and>
   user_memory (snd (chat sample_env note_request sample_state)) (lit ''ann'') =
     Some [\<lparr>role = lit ''user'', content = lit ''hi''\<rparr>,
           \<lparr>role = lit ''system'', content = lit ''[NOTE] buy hay''\<rparr>,
           \<lparr>role = lit ''user'', content = lit ''Note: buy hay''\<rparr>,
           \<lparr>role = lit ''assistant'', content = lit ''Got it, I saved a note: buy hay''\<rparr>] \<and>
   (startswith (str_lower sample_env (strip (message empty_note_request))) (lit ''note:'') \<or>
    startswith (str_lower sample_env (strip (message empty_note_request))) (lit ''note '')) \<and>
   \<not> contains (str_lower sample_env (strip (message empty_note_request))) (lit ''weather in '') \<and>
   note_content (strip (message empty_note_request)) = [] \<and>
   user_memory (snd (chat sample_env empty_note_request sample_state)) (lit ''ann'') =
     Some [\<lparr>role = lit ''user'', content = lit ''hi''\<rparr>,
           \<lparr>role = lit ''user'', content = lit ''NOTE:''\<rparr>,
           \<lparr>role = lit ''assistant'',
            content = lit ''Your note is empty. Try 'Note: buy hay for the horses.'' @ [39]\<rparr>]"
proof -
  have a': "lit ''buy hay'' \<noteq> []" by (simp add: lit_def)
  have l: "lit ''[NOTE] '' @ lit ''buy hay'' = lit ''[NOTE] buy hay''"
    "lit ''Got it, I saved a note: '' @ lit ''buy hay'' = lit ''Got it, I saved a note: buy hay''"
    by (simp_all add: lit_def)
  show ?thesis
    using note_hyps empty_note_hyps
      note_command [OF note_hyps, of sample_state]
      note_command [OF empty_note_hyps, of sample_state]
    by (simp add: note_parsed empty_note_parsed a' l note_user ann_memory note_stripped
        empty_note_stripped)
qed

text \<open>
  C9 as stated fails on \<open>note: weather in Paris\<close>: it is a note command with a non-empty
  content, it is answered by the weather tool, and no \<open>[NOTE]\<close> record is stored.
\<close>

theorem note_command_counterexample:
  "startswith (str_lower sample_env (strip (message note_weather_request))) (lit ''note:'') \<and>
   note_content (strip (message note_weather_request)) = lit ''weather in Paris'' \<and>
   user_memory (snd (chat sample_env note_weather_request sample_state)) (lit ''ann'') =
     Some [\<lparr>role = lit ''user'', content = lit ''hi''\<rparr>,
           \<lparr>role = lit ''user'', content = lit ''note: weather in Paris''\<rparr>,
           \<lparr>role = lit ''assistant'',
            content = lit ''I couldn't find weather information for 'Paris'.''\<rparr>] \<and>
   user_memory (snd (chat sample_env note_weather_request sample_state)) (lit ''ann'') \<noteq>
     Some (memory_get sample_state (lit ''ann'') @
           [\<lparr>role = lit ''system'', content = lit ''[NOTE] weather in Paris''\<rparr>,
            \<lparr>role = lit ''user'', content = lit ''note: weather in Paris''\<rparr>,
            \<lparr>role = lit ''assistant'', content = lit ''Got it, I saved a note: weather in Paris''\<rparr>])"
proof -
  have u: "user_id note_weather_request = lit ''ann''"
    by (simp add: note_weather_request_def)
  have f: "fst (maybe_handle_tools sample_env (user_id note_weather_request)
      (strip (message note_weather_request)) sample_state) =
      Some (lit ''I couldn't find weather information for 'Paris'.'')"
    by (simp add: note_weather_stripped note_weather_tools)
  have m: "user_memory (snd (chat sample_env note_weather_request sample_state)) (lit ''ann'') =
     Some [\<lparr>role = lit ''user'', content = lit ''hi''\<rparr>,
           \<lparr>role = lit ''user'', content = lit ''note: weather in Paris''\<rparr>,
           \<lparr>role = lit ''assistant'',
            content = lit ''I couldn't find weather information for 'Paris'.''\<rparr>]"
    by (simp add: chat_tool [OF f] u two_appends_memory note_weather_stripped note_weather_tools
        memory_get_record_call ann_memory)
  have s: "startswith (str_lower sample_env (strip (message note_weather_request))) (lit ''note:'')"
    by (simp add: note_weather_stripped note_weather_lower) (simp add: str_eval)
  have p: "note_content (strip (message note_weather_request)) = lit ''weather in Paris''"
    by (simp add: note_weather_stripped note_weather_parsed)
  show ?thesis
    by (simp add: s p m ann_memory)
qed

section \<open>Memory is append-only\<close>

lemma chat_memory_grows:
  assumes "user_memory s uid = Some ms"
  shows "\<exists>ms'. user_memory (snd (chat E req s)) uid = Some (ms @ ms')"
proof (cases "uid = user_id req")
  case False
  then show ?thesis using assms by (simp add: chat_memory_other)
next
  case True
  have old: "memory_get s (user_id req) = ms"
    using assms True by (simp add: memory_get_Some)
  show ?thesis
  proof (cases "fst (maybe_handle_tools E (user_id req) (strip (message req)) s)")
    case None
    show ?thesis
      by (simp add: True chat_fallback [OF None] two_appends_memory memory_get_record_call old)
  next
    case (Some reply)
    obtain xs where "memory_get (snd (maybe_handle_tools E (user_id req) (strip (message req)) s))
        (user_id req) = memory_get s (user_id req) @ xs"
      using tools_memory_grows by blast
    then show ?thesis
      by (simp add: True chat_tool [OF Some] two_appends_memory old)
  qed
qed

lemma transcribe_memory: "user_memory (snd (transcribe_audio E file s)) = user_memory s"
  by (simp add: transcribe_audio_def Let_def record_call_memory split: sum.splits)

lemma transcribe_outbound:
  "outbound (snd (transcribe_audio E file s)) =
     outbound s @ [Transcription (filename file) (file_bytes file) (content_type file)]"
  by (simp add: transcribe_audio_def Let_def record_call_outbound split: sum.splits)

lemma handle_memory_grows:
  assumes "user_memory s uid = Some ms"
  shows "\<exists>ms'. user_memory (handle E r s) uid = Some (ms @ ms')"
proof (cases r)
  case (Chat req)
  then show ?thesis using chat_memory_grows [OF assms] by simp
next
  case (Transcribe upload)
  then show ?thesis using assms by (simp add: transcribe_memory)
next
  case Root
  then show ?thesis using assms by (simp add: root_def)
qed

lemma run_memory_grows:
  "user_memory s uid = Some ms \<Longrightarrow> \<exists>ms'. user_memory (run rs s) uid = Some (ms @ ms')"
proof (induction rs arbitrary: s ms)
  case Nil
  then show ?case by simp
next
  case (Cons a rs)
  obtain E r where a: "a = (E, r)" by (cases a)
  obtain xs where step: "user_memory (handle E r s) uid = Some (ms @ xs)"
    using handle_memory_grows [OF Cons.prems] by blast
  obtain ys where "user_memory (run rs (handle E r s)) uid = Some ((ms @ xs) @ ys)"
    using Cons.IH [OF step] by blast
  then show ?case by (simp add: a)
qed

text \<open>
  C5. Over any sequence of requests (chat on either path, transcription, health check),
  each in its own environment, every list stored in \<open>user_memory\<close> stays stored and is a
  prefix of its later value: no record is removed, truncated or changed.
\<close>

theorem memory_append_only:
  "user_memory s uid = Some ms \<Longrightarrow>
   \<exists>ms'. user_memory (run rs s) uid = Some ms' \<and> prefix ms ms'"
  using run_memory_grows [of s uid ms rs] by (auto simp: prefix_def)

theorem memory_append_only_witness:
  "user_memory sample_state (lit ''ann'') = Some [\<lparr>role = lit ''user'', content = lit ''hi''\<rparr>] \<and>
   (\<exists>ms'. user_memory
            (run [(sample_env, Chat note_request), (sample_env, Transcribe sample_file),
                  (sample_env, Root), (failing_env, Chat hello_request)] sample_state)
            (lit ''ann'') = Some ms' \<and>
          prefix [\<lparr>role = lit ''user'', content = lit ''hi''\<rparr>] ms')"
proof -
  have h: "user_memory sample_state (lit ''ann'') =
      Some [\<lparr>role = lit ''user'', content = lit ''hi''\<rparr>]"
    by (simp add: sample_state_def)
  show ?thesis
    using h memory_append_only [OF h] by blast
qed

section \<open>The transcription endpoint is a proxy\<close>

text \<open>
  C7. The transcription endpoint passes the file's name, bytes and content type to the
  transcription service in one call, leaves \<open>user_memory\<close> as it was, and, when the
  service returns a text, returns the JSON object whose \<open>text\<close> field is that text.
\<close>

theorem transcribe_proxy:
  "user_memory (snd (transcribe_audio E file s)) = user_memory s \<and>
   outbound (snd (transcribe_audio E file s)) =
     outbound s @ [Transcription (filename file) (file_bytes file) (content_type file)] \<and>
   (\<forall>text. transcriptions_create E (filename file, file_bytes file, content_type file) = Inr text \<longrightarrow>
      fst (transcribe_audio E file s) = Inr [(lit ''text'', text)])"
  by (simp add: transcribe_memory transcribe_outbound) (simp add: transcribe_audio_def Let_def)

theorem transcribe_proxy_witness:
  "transcriptions_create sample_env
     (filename sample_file, file_bytes sample_file, content_type sample_file) =
     Inr (lit ''buy hay'') \<and>
   fst (transcribe_audio sample_env sample_file sample_state) =
     Inr [(lit ''text'', lit ''buy hay'')] \<and>
   user_memory (snd (transcribe_audio sample_env sample_file sample_state)) =
     user_memory sample_state"
proof -
  have h: "transcriptions_create sample_env
     (filename sample_file, file_bytes sample_file, content_type sample_file) =
     Inr (lit ''buy hay'')"
    by (simp add: sample_env_def)
  show ?thesis
    using h transcribe_proxy [of sample_env sample_file sample_state] by simp
qed

section \<open>The city of a weather request\<close>

text \<open>
  Where lowercasing is positional on the message (the lowercase of every substring is
  the substring of the lowercase at the same place, as it is when every code point
  lowercases to one code point), the index found in the lowercased message is the index
  of the first occurrence in the original, and \<open>parse_city\<close> is the text after it,
  stripped, with \<open>Bentonville\<close> for an empty result.
\<close>

lemma find_index_spec_text_after:
  assumes "\<And>j n. lower (take n (drop j m)) = take n (drop j l)"
    and "find_index l pat = Some p"
  shows "spec_text_after lower pat m = Some (drop (p + length pat) m)"
  using assms
proof (induction m arbitrary: l p)
  case Nil
  have "lower [] = take (length l) l" using Nil.prems(1) [of "length l" 0] by simp
  moreover have e: "lower [] = []" using Nil.prems(1) [of 0 0] by simp
  ultimately have "l = []" by simp
  with Nil.prems(2) have "pat = []" by (simp split: if_splits)
  with e show ?case by simp
next
  case (Cons c cs)
  have here: "lower (take (length pat) (c # cs)) = take (length pat) l"
    using Cons.prems(1) [of "length pat" 0] by simp
  show ?case
  proof (cases "startswith l pat")
    case True
    then have "find_index l pat = Some 0" by (cases l) (simp_all add: startswith_def)
    with Cons.prems(2) have "p = 0" by simp
    with True here show ?thesis by (simp add: startswith_def)
  next
    case False
    then obtain x xs where l: "l = x # xs"
      using Cons.prems(2) by (cases l) (simp_all add: startswith_def split: if_splits)
    from False l Cons.prems(2) obtain p' where p': "find_index xs pat = Some p'" "p = Suc p'"
      by auto
    have "\<And>j n. lower (take n (drop j cs)) = take n (drop j xs)"
      using Cons.prems(1) [of _ "Suc _"] by (simp add: l)
    from Cons.IH [OF this p'(1)] False here p'(2) show ?thesis
      by (simp add: startswith_def)
  qed
qed

lemma parse_city_meets_spec:
  assumes "\<And>j n. lower (take n (drop j msg)) = take n (drop j (lower msg))"
    and "contains (lower msg) (lit ''weather in '')"
  shows "\<exists>after.
     spec_text_after lower (lit ''weather in '') msg = Some after \<and>
     parse_city (lower msg) msg =
       (if rstrip_chars (strip after) (lit ''? .,!'') = [] then lit ''Bentonville''
        else rstrip_chars (strip after) (lit ''? .,!''))"
proof -
  from assms(2) obtain p where p: "find_index (lower msg) (lit ''weather in '') = Some p"
    by (auto simp: contains_def)
  have "spec_text_after lower (lit ''weather in '') msg =
      Some (drop (p + length (lit ''weather in '')) msg)"
    using assms(1) p by (rule find_index_spec_text_after)
  moreover have "slice_from msg (find (lower msg) (lit ''weather in '') +
      int (length (lit ''weather in ''))) = drop (p + length (lit ''weather in '')) msg"
    by (simp add: find_def p slice_from_def nat_add_distrib)
  ultimately show ?thesis
    by (simp add: parse_city_def Let_def)
qed

lemma parse_city_pointwise:
  assumes "contains (map f msg) (lit ''weather in '')"
  shows "\<exists>after.
     spec_text_after (map f) (lit ''weather in '') msg = Some after \<and>
     parse_city (map f msg) msg =
       (if rstrip_chars (strip after) (lit ''? .,!'') = [] then lit ''Bentonville''
        else rstrip_chars (strip after) (lit ''? .,!''))"
  using assms by (intro parse_city_meets_spec) (simp_all add: take_map drop_map)

lemma dotted_stripped: "strip (message dotted_request) = 304 # lit '' weather in Paris''"
  by (simp add: dotted_request_def str_eval)

lemma dotted_lower:
  "str_lower sample_env (304 # lit '' weather in Paris'') =
     105 # 775 # lit '' weather in paris''"
  by (simp add: sample_env_def sample_lower_def lit_def)

lemma dotted_contains: "contains (105 # 775 # lit '' weather in paris'') (lit ''weather in '')"
  by (simp add: str_eval)

lemma dotted_city:
  "parse_city (105 # 775 # lit '' weather in paris'') (304 # lit '' weather in Paris'') = lit ''aris''"
  by (simp add: parse_city_def Let_def str_eval)

lemma dotted_spec:
  "spec_text_after sample_lower (lit ''weather in '') (304 # lit '' weather in Paris'') = Some (lit ''Paris'')"
  by (simp add: sample_lower_def lit_def)

text \<open>
  C10 at the request whose message is U+0130 followed by \<open> weather in Paris\<close>. Lowercasing
  turns U+0130 into two code points, so the index computed in the lowercased message is
  one too large for the original: the text after the first occurrence of the pattern is
  \<open>Paris\<close>, and the city passed to the weather lookup is \<open>aris\<close>.
\<close>

theorem weather_city_after_dotted_I:
  "contains (str_lower sample_env (strip (message dotted_request))) (lit ''weather in '') \<and>
   spec_text_after (str_lower sample_env) (lit ''weather in '') (strip (message dotted_request)) =
     Some (lit ''Paris'') \<and>
   outbound (snd (chat sample_env dotted_request sample_state)) = [WeatherLookup (lit ''aris'')]"
proof -
  have l: "str_lower sample_env = sample_lower" by (simp add: sample_env_def)
  have t: "maybe_handle_tools sample_env (user_id dotted_request)
      (strip (message dotted_request)) sample_state =
      (Some (get_weather_for_city sample_env (lit ''aris'')),
       record_call (WeatherLookup (lit ''aris'')) sample_state)"
    by (simp add: maybe_handle_tools_def Let_def dotted_stripped dotted_lower dotted_contains
        dotted_city)
  have f: "fst (maybe_handle_tools sample_env (user_id dotted_request)
      (strip (message dotted_request)) sample_state) =
      Some (get_weather_for_city sample_env (lit ''aris''))"
    by (simp add: t)
  have o: "outbound (snd (chat sample_env dotted_request sample_state)) =
      [WeatherLookup (lit ''aris'')]"
    by (simp add: chat_tool [OF f] two_appends_outbound t record_call_outbound sample_outbound)
  have c: "contains (str_lower sample_env (strip (message dotted_request))) (lit ''weather in '')"
    by (simp add: dotted_stripped dotted_lower dotted_contains)
  have s: "spec_text_after (str_lower sample_env) (lit ''weather in '')
      (strip (message dotted_request)) = Some (lit ''Paris'')"
    by (simp only: l dotted_stripped dotted_spec)
  show ?thesis using c s o by simp
qed

end
